theory Spec2Isabelle
  imports Main
begin

section \<open>The App component (frontend/src/App.jsx)\<close>

subsection \<open>JavaScript values as the component tests them\<close>

text \<open>
  The component tests three values it gets from its hooks for truthiness:
  \<^verbatim>\<open>syncStatus && ...\<close>, \<^verbatim>\<open>!currentProfile?.avatar\<close> and
  \<^verbatim>\<open>!!currentProfile?.avatar\<close>. The hooks themselves are imported from
  \<^verbatim>\<open>./hooks/useOfflineStorage\<close> and \<^verbatim>\<open>./hooks/useDeviceProfile\<close>, so the
  values are kept as JavaScript values, with JavaScript's truthiness.
\<close>

datatype js_value = JUndefined | JNull | JBool bool | JNum int | JStr string

fun truthy :: "js_value \<Rightarrow> bool" where
  "truthy JUndefined = False"
| "truthy JNull = False"
| "truthy (JBool b) = b"
| "truthy (JNum n) = (n \<noteq> 0)"
| "truthy (JStr s) = (s \<noteq> [])"

subsection \<open>What the hooks hand to the component\<close>

text \<open>
  An avatar of the list is an object of which the component reads \<^verbatim>\<open>avatar.id\<close>;
  the current profile is an object (or null) of which it reads \<^verbatim>\<open>.avatar\<close>.
\<close>

record avatar_item =
  avatar_id :: js_value

record profile =
  avatar :: js_value

text \<open>
  \<^verbatim>\<open>currentProfile?.avatar\<close>: optional chaining gives \<^verbatim>\<open>undefined\<close> when there is
  no profile object.
\<close>

definition profile_avatar :: "profile option \<Rightarrow> js_value" where
  "profile_avatar cp = (case cp of None \<Rightarrow> JUndefined | Some p \<Rightarrow> avatar p)"

text \<open>
  The values destructured from \<^verbatim>\<open>useOfflineStorage()\<close>, \<^verbatim>\<open>useDeviceProfile()\<close> and
  \<^verbatim>\<open>usePWA()\<close>. The flags are only ever negated or used as conditions, so they are
  booleans here; \<^verbatim>\<open>avatars\<close> is the array whose \<^verbatim>\<open>length\<close> is read.
\<close>

record hooks =
  storageReady :: bool
  syncStatus :: js_value
  currentProfile :: "profile option"
  avatars :: "avatar_item list"
  isProfileReady :: bool
  canInstall :: bool

text \<open>
  The component's own state: \<^verbatim>\<open>useState(true)\<close> for \<^verbatim>\<open>isLoading\<close> and
  \<^verbatim>\<open>useState(false)\<close> for \<^verbatim>\<open>showAvatarSelection\<close>.
\<close>

record app_state =
  isLoading :: bool
  showAvatarSelection :: bool

definition initial_state :: app_state where
  "initial_state = \<lparr>isLoading = True, showAvatarSelection = False\<rparr>"

subsection \<open>The initialisation effect\<close>

text \<open>
  \<^verbatim>\<open>initializeApp\<close> (lines 42-61) runs whenever \<^verbatim>\<open>storageReady\<close>,
  \<^verbatim>\<open>currentProfile\<close> or \<^verbatim>\<open>avatars\<close> change. It returns at once while storage is
  not ready; otherwise it awaits \<^verbatim>\<open>initializeAudio()\<close>, raises the avatar-selection
  flag when the profile has no avatar and the list is not empty, and ends the loading.
  When \<^verbatim>\<open>initializeAudio()\<close> throws, the \<^verbatim>\<open>catch\<close> branch logs the error and only
  ends the loading. \<^verbatim>\<open>initializeAudio\<close> is imported from
  \<^verbatim>\<open>./services/audioService\<close>; whether it throws is the parameter \<open>audio_throws\<close>.
  One run of the effect is one step of the model.
\<close>

text \<open>The test of line 51: \<^verbatim>\<open>!currentProfile?.avatar && avatars.length > 0\<close>.\<close>

definition needs_avatar :: "hooks \<Rightarrow> bool" where
  "needs_avatar h = (\<not> truthy (profile_avatar (currentProfile h)) \<and> length (avatars h) > 0)"

definition initializeApp :: "hooks \<Rightarrow> bool \<Rightarrow> app_state \<Rightarrow> app_state" where
  "initializeApp h audio_throws st =
     (if \<not> storageReady h then st
      else if audio_throws then st\<lparr>isLoading := False\<rparr>
      else (if needs_avatar h
            then st\<lparr>showAvatarSelection := True\<rparr>
            else st)\<lparr>isLoading := False\<rparr>)"

text \<open>
  The effect runs once after the first render and again after every render in which
  \<^verbatim>\<open>storageReady\<close>, \<^verbatim>\<open>currentProfile\<close> or \<^verbatim>\<open>avatars\<close> changed: a start of the
  application is a sequence of runs, each with the hook values of its render and with
  the outcome of its \<^verbatim>\<open>initializeAudio()\<close>, carried out in order on the component's
  state.
\<close>

fun initializeApp_runs :: "(hooks \<times> bool) list \<Rightarrow> app_state \<Rightarrow> app_state" where
  "initializeApp_runs [] st = st"
| "initializeApp_runs ((h, audio_throws) # rs) st =
     initializeApp_runs rs (initializeApp h audio_throws st)"

subsection \<open>The handlers\<close>

text \<open>
  \<^verbatim>\<open>handleAvatarSelected\<close> (lines 67-70) calls the hook's \<^verbatim>\<open>setCurrentAvatar\<close>
  with \<^verbatim>\<open>avatar.id\<close> and lowers the flag. The call is recorded, since the hook that
  carries it out is not part of the component.
\<close>

datatype hook_call = SetCurrentAvatar js_value

definition handleAvatarSelected :: "avatar_item \<Rightarrow> app_state \<Rightarrow> hook_call list \<times> app_state" where
  "handleAvatarSelected a st =
     ([SetCurrentAvatar (avatar_id a)], st\<lparr>showAvatarSelection := False\<rparr>)"

text \<open>\<^verbatim>\<open>onSkip={() => setShowAvatarSelection(false)}\<close> of the start screen (line 84).\<close>

definition onSkip :: "app_state \<Rightarrow> app_state" where
  "onSkip st = st\<lparr>showAvatarSelection := False\<rparr>"

subsection \<open>What the component renders\<close>

text \<open>
  The sync status indicator (lines 120-147): the box is rendered when the status is
  truthy and not the string \<^verbatim>\<open>'idle'\<close>; inside it, a coloured dot and a label for
  \<^verbatim>\<open>'syncing'\<close>, \<^verbatim>\<open>'offline'\<close> and \<^verbatim>\<open>'error'\<close>, each under its own \<^verbatim>\<open>===\<close> test.
\<close>

definition indicator_body :: "js_value \<Rightarrow> (string \<times> string) list" where
  "indicator_body s =
     (if s = JStr ''syncing'' then [(''bg-blue-500'', ''Syncing...'')] else []) @
     (if s = JStr ''offline'' then [(''bg-orange-500'', ''Offline'')] else []) @
     (if s = JStr ''error'' then [(''bg-red-500'', ''Sync Error'')] else [])"

definition sync_indicator :: "js_value \<Rightarrow> (string \<times> string) list option" where
  "sync_indicator s =
     (if truthy s \<and> s \<noteq> JStr ''idle'' then Some (indicator_body s) else None)"

text \<open>
  The route table (lines 151-171): the pages under the layout route \<^verbatim>\<open>/\<close>, and the
  catch-all that navigates home. The \<^verbatim>\<open>avatar-selection\<close> route shows the selection
  component with \<^verbatim>\<open>canSkip={true}\<close>.
\<close>

datatype page =
    HomePage | SubjectPage | LevelPage | RewardsPage | ProfilePage
  | AvatarSelectionPage "avatar_item list" bool
  | NavigateHome

definition routes :: "hooks \<Rightarrow> (string \<times> page) list" where
  "routes h =
     [(''/'', HomePage),
      (''subjects/:subjectSlug'', SubjectPage),
      (''levels/:levelId'', LevelPage),
      (''rewards'', RewardsPage),
      (''profile'', ProfilePage),
      (''avatar-selection'', AvatarSelectionPage (avatars h) True),
      (''*'', NavigateHome)]"

text \<open>
  The three things \<^verbatim>\<open>App\<close> returns (lines 73-203): the loading screen, the start
  screen for choosing an avatar (with its \<^verbatim>\<open>avatars\<close> and \<^verbatim>\<open>canSkip\<close> props), or the
  main application: the install prompt when \<^verbatim>\<open>canInstall\<close>, the sync indicator, and
  the routes.
\<close>

datatype view =
    LoadingScreen
  | AvatarSelection "avatar_item list" bool
  | MainApp bool "(string \<times> string) list option" "(string \<times> page) list"

definition App :: "hooks \<Rightarrow> app_state \<Rightarrow> view" where
  "App h st =
     (if isLoading st \<or> \<not> storageReady h \<or> \<not> isProfileReady h then LoadingScreen
      else if showAvatarSelection st
        then AvatarSelection (avatars h) (truthy (profile_avatar (currentProfile h)))
      else MainApp (canInstall h) (sync_indicator (syncStatus h)) (routes h))"

text \<open>What a rendered view shows of the sync indicator and of the routes.\<close>

definition shown_indicator :: "view \<Rightarrow> (string \<times> string) list option" where
  "shown_indicator v = (case v of MainApp _ i _ \<Rightarrow> i | _ \<Rightarrow> None)"

definition shown_routes :: "view \<Rightarrow> (string \<times> page) list option" where
  "shown_routes v = (case v of MainApp _ _ r \<Rightarrow> Some r | _ \<Rightarrow> None)"

text \<open>The five status values of the sync state machine, as the strings the component compares with.\<close>

definition sync_statuses :: "js_value list" where
  "sync_statuses = [JStr ''idle'', JStr ''syncing'', JStr ''synced'', JStr ''offline'', JStr ''error'']"

section \<open>The sync status state machine (spec, section 4.2)\<close>

text \<open>
  Modelled from the spec: the states of the sync status and the moves between them,
  which \<^verbatim>\<open>useOfflineStorage\<close> makes and which are not among the sources; the component
  only reads \<^verbatim>\<open>syncStatus\<close>. Section 4.2: "State machine: idle -> syncing -> {synced,
  offline, error}, always returning to idle after a terminal state is observed by the
  caller". A state is handed to the component as the string of its name.
\<close>

datatype sync_state = Idle | Syncing | Synced | Offline | Error

fun status_string :: "sync_state \<Rightarrow> js_value" where
  "status_string Idle = JStr ''idle''"
| "status_string Syncing = JStr ''syncing''"
| "status_string Synced = JStr ''synced''"
| "status_string Offline = JStr ''offline''"
| "status_string Error = JStr ''error''"

fun terminal :: "sync_state \<Rightarrow> bool" where
  "terminal Synced = True"
| "terminal Offline = True"
| "terminal Error = True"
| "terminal _ = False"

text \<open>The states that may follow a state.\<close>

fun sync_next :: "sync_state \<Rightarrow> sync_state list" where
  "sync_next Idle = [Syncing]"
| "sync_next Syncing = [Synced, Offline, Error]"
| "sync_next Synced = [Idle]"
| "sync_next Offline = [Idle]"
| "sync_next Error = [Idle]"

text \<open>A sequence of states the caller observes, each followed by one of its successors.\<close>

fun sync_trace :: "sync_state list \<Rightarrow> bool" where
  "sync_trace [] = True"
| "sync_trace [s] = True"
| "sync_trace (s # s' # ss) = (s' \<in> set (sync_next s) \<and> sync_trace (s' # ss))"

section \<open>The Local Profile Store (spec, section 4.1)\<close>

text \<open>
  Modelled from the spec: the data model of the Local Profile Store, which the
  component reaches through its hooks only and which is not among the sources.
  Section 3: a ProgressEntry has a "level identifier, best score (0-100), attempt
  count, completion time, last-modified timestamp"; a DeviceProfile "holds a selected
  avatar identifier, a monotonic version counter, a last-updated timestamp, and a
  collection of ProgressEntry records keyed by level identifier". Level identifiers,
  counts and times are natural numbers, as in the documented request body
  (\<^verbatim>\<open>"level_id": 1, "score": 85, "attempts": 2, "completion_time": 120\<close>).
\<close>

record ProgressEntry =
  level_id :: nat
  score :: nat
  attempts :: nat
  completion_time :: nat
  last_modified :: nat

record DeviceProfile =
  selected_avatar :: "nat option"
  version :: nat
  last_updated :: nat
  progress :: "nat \<rightharpoonup> ProgressEntry"

text \<open>
  Modelled from the spec: the Local Profile Store's \<^verbatim>\<open>upsertProgress\<close>, which is not
  among the sources. Section 4.1: it "inserts or replaces the entry for that level;
  recomputes best score as max(existing.score, new.score) and attempts as
  existing.attempts + new.attempts", and "every mutation increments the profile's local
  version counter and stamps last-updated with the current time". The device identifier
  selects the profile, which is the argument \<open>p\<close>; \<open>now\<close> is the current time.
\<close>

definition upsertProgress :: "nat \<Rightarrow> DeviceProfile \<Rightarrow> nat \<Rightarrow> ProgressEntry \<Rightarrow> DeviceProfile" where
  "upsertProgress now p levelId entry =
     p\<lparr>progress := (progress p)(levelId \<mapsto>
          (case progress p levelId of
             None \<Rightarrow> entry
           | Some existing \<Rightarrow>
               entry\<lparr>score := max (score existing) (score entry),
                     attempts := attempts existing + attempts entry\<rparr>)),
       version := version p + 1,
       last_updated := now\<rparr>"

text \<open>
  A sequence of calls for one device profile, each with its time, level and entry,
  carried out in order.
\<close>

fun upsertProgress_calls :: "DeviceProfile \<Rightarrow> (nat \<times> nat \<times> ProgressEntry) list \<Rightarrow> DeviceProfile" where
  "upsertProgress_calls p [] = p"
| "upsertProgress_calls p ((now, levelId, entry) # cs) =
     upsertProgress_calls (upsertProgress now p levelId entry) cs"

text \<open>The entries a sequence of calls submits for one level, in order.\<close>

definition submitted_for :: "nat \<Rightarrow> (nat \<times> nat \<times> ProgressEntry) list \<Rightarrow> ProgressEntry list" where
  "submitted_for levelId cs =
     map (\<lambda>c. snd (snd c)) (filter (\<lambda>c. fst (snd c) = levelId) cs)"

section \<open>Properties of the App component\<close>

lemma App_LoadingScreen:
  "App h st = LoadingScreen \<longleftrightarrow> isLoading st \<or> \<not> storageReady h \<or> \<not> isProfileReady h"
  by (simp add: App_def)

lemma shown_indicator_App:
  "shown_indicator (App h st) =
     (if isLoading st \<or> \<not> storageReady h \<or> \<not> isProfileReady h \<or> showAvatarSelection st
      then None else sync_indicator (syncStatus h))"
  by (simp add: App_def shown_indicator_def)

lemma shown_routes_App:
  "shown_routes (App h st) = Some (routes h) \<longleftrightarrow>
     \<not> isLoading st \<and> storageReady h \<and> isProfileReady h \<and> \<not> showAvatarSelection st"
  by (auto simp add: App_def shown_routes_def)

lemma shown_routes_syncStatus:
  "shown_routes (App (h\<lparr>syncStatus := v\<rparr>) st) = shown_routes (App h st)"
  by (simp add: App_def shown_routes_def routes_def)

text \<open>What the indicator holds for each state of the sync state machine.\<close>

lemma sync_indicator_status:
  "sync_indicator (status_string s) =
     (case s of
        Idle \<Rightarrow> None
      | Syncing \<Rightarrow> Some [(''bg-blue-500'', ''Syncing...'')]
      | Synced \<Rightarrow> Some []
      | Offline \<Rightarrow> Some [(''bg-orange-500'', ''Offline'')]
      | Error \<Rightarrow> Some [(''bg-red-500'', ''Sync Error'')])"
  by (cases s) (simp_all add: sync_indicator_def indicator_body_def)

lemma shown_indicator_status:
  assumes "\<not> isLoading st" "storageReady h" "isProfileReady h" "\<not> showAvatarSelection st"
  shows "shown_indicator (App (h\<lparr>syncStatus := status_string s\<rparr>) st) \<noteq> None \<longleftrightarrow> s \<noteq> Idle"
  using assms by (cases s) (simp_all add: shown_indicator_App sync_indicator_def)

lemma status_string_five: "status_string s \<in> set sync_statuses"
  by (cases s) (simp_all add: sync_statuses_def)

text \<open>A status that is not truthy (\<^verbatim>\<open>undefined\<close>, \<^verbatim>\<open>null\<close>, the empty string) renders no indicator.\<close>

lemma sync_indicator_falsy:
  "sync_indicator JUndefined = None \<and> sync_indicator JNull = None \<and> sync_indicator (JStr []) = None"
  by (simp add: sync_indicator_def)

lemma terminal_next: "terminal s \<Longrightarrow> s' \<in> set (sync_next s) \<Longrightarrow> s' = Idle"
  by (cases s) auto

text \<open>In an observed sequence, what follows a terminal state is \<open>Idle\<close>.\<close>

lemma sync_trace_returns_to_idle:
  "sync_trace tr \<Longrightarrow> Suc i < length tr \<Longrightarrow> terminal (tr ! i) \<Longrightarrow> tr ! Suc i = Idle"
proof (induction tr arbitrary: i rule: sync_trace.induct)
  case 1
  then show ?case by simp
next
  case (2 s)
  then show ?case by simp
next
  case (3 s s' ss)
  show ?case
  proof (cases i)
    case 0
    with "3.prems" show ?thesis by (simp add: terminal_next)
  next
    case (Suc j)
    with "3.prems" "3.IH" [of j] show ?thesis by simp
  qed
qed

text \<open>
  C9, as the claim states it, fails on the code: the indicator is part of the main
  application only, so while the loading screen is up (the component starts with
  \<^verbatim>\<open>isLoading\<close> true) a status of \<^verbatim>\<open>'syncing'\<close> renders no indicator.
\<close>

theorem indicator_absent_while_loading:
  "syncStatus \<lparr>storageReady = True, syncStatus = JStr ''syncing'', currentProfile = None,
       avatars = [], isProfileReady = True, canInstall = False\<rparr> \<noteq> JStr ''idle''
   \<and> shown_indicator
       (App \<lparr>storageReady = True, syncStatus = JStr ''syncing'', currentProfile = None,
              avatars = [], isProfileReady = True, canInstall = False\<rparr> initial_state) = None"
  by (simp add: App_def shown_indicator_def initial_state_def)

text \<open>
  C9, amended. The sync status the presentation layer observes is one of the five values
  idle, syncing, synced, offline and error, and in every observed sequence a terminal
  state is followed by idle. The status is surfaced as the indicator of the main
  application only: what \<^verbatim>\<open>App\<close> shows of it is nothing while the loading screen or the
  avatar start screen is up, and past both screens the indicator of the status, which
  for the five values is rendered exactly when the status is not idle (a dot and a
  label for syncing, offline and error, an empty box for synced). Whether the routes
  are rendered never depends on the status: replacing it by any value leaves the
  rendered routes as they are, and they are rendered exactly when the component is past
  the two screens.
\<close>

theorem sync_status_indicator:
  "shown_indicator (App h st) =
     (if isLoading st \<or> \<not> storageReady h \<or> \<not> isProfileReady h \<or> showAvatarSelection st
      then None else sync_indicator (syncStatus h))
   \<and> sync_indicator (status_string s) =
       (case s of
          Idle \<Rightarrow> None
        | Syncing \<Rightarrow> Some [(''bg-blue-500'', ''Syncing...'')]
        | Synced \<Rightarrow> Some []
        | Offline \<Rightarrow> Some [(''bg-orange-500'', ''Offline'')]
        | Error \<Rightarrow> Some [(''bg-red-500'', ''Sync Error'')])
   \<and> (\<not> isLoading st \<and> storageReady h \<and> isProfileReady h \<and> \<not> showAvatarSelection st \<longrightarrow>
        (shown_indicator (App (h\<lparr>syncStatus := status_string s\<rparr>) st) \<noteq> None \<longleftrightarrow> s \<noteq> Idle))
   \<and> status_string s \<in> set sync_statuses
   \<and> (sync_trace tr \<and> Suc i < length tr \<and> terminal (tr ! i) \<longrightarrow> tr ! Suc i = Idle)
   \<and> shown_routes (App (h\<lparr>syncStatus := v\<rparr>) st) = shown_routes (App h st)
   \<and> (shown_routes (App h st) = Some (routes h) \<longleftrightarrow>
        \<not> isLoading st \<and> storageReady h \<and> isProfileReady h \<and> \<not> showAvatarSelection st)"
proof -
  note a = shown_indicator_App [where h = h and st = st]
  note b = sync_indicator_status [where s = s]
  have c: "\<not> isLoading st \<and> storageReady h \<and> isProfileReady h \<and> \<not> showAvatarSelection st \<longrightarrow>
        (shown_indicator (App (h\<lparr>syncStatus := status_string s\<rparr>) st) \<noteq> None \<longleftrightarrow> s \<noteq> Idle)"
    using shown_indicator_status [where h = h and st = st and s = s] by blast
  note d = status_string_five [where s = s]
  have e: "sync_trace tr \<and> Suc i < length tr \<and> terminal (tr ! i) \<longrightarrow> tr ! Suc i = Idle"
    using sync_trace_returns_to_idle [where tr = tr and i = i] by blast
  note f = shown_routes_syncStatus [where h = h and v = v and st = st]
  note g = shown_routes_App [where h = h and st = st]
  from a b c d e f g show ?thesis by blast
qed

theorem sync_status_indicator_witness:
  "shown_indicator
     (App \<lparr>storageReady = True, syncStatus = JStr ''error'', currentProfile = None,
            avatars = [], isProfileReady = True, canInstall = False\<rparr>
          \<lparr>isLoading = False, showAvatarSelection = False\<rparr>)
     = Some [(''bg-red-500'', ''Sync Error'')]
   \<and> shown_indicator
       (App \<lparr>storageReady = True, syncStatus = JStr ''synced'', currentProfile = None,
              avatars = [], isProfileReady = True, canInstall = False\<rparr>
            \<lparr>isLoading = False, showAvatarSelection = False\<rparr>) \<noteq> None
   \<and> sync_trace [Idle, Syncing, Synced, Idle, Syncing]
   \<and> terminal ([Idle, Syncing, Synced, Idle, Syncing] ! 2)
   \<and> [Idle, Syncing, Synced, Idle, Syncing] ! Suc 2 = Idle
   \<and> shown_routes
       (App \<lparr>storageReady = True, syncStatus = JStr ''offline'', currentProfile = None,
              avatars = [], isProfileReady = True, canInstall = False\<rparr>
            \<lparr>isLoading = False, showAvatarSelection = False\<rparr>)
     = Some (routes \<lparr>storageReady = True, syncStatus = JStr ''error'', currentProfile = None,
              avatars = [], isProfileReady = True, canInstall = False\<rparr>)"
  using sync_status_indicator
    [of "\<lparr>storageReady = True, syncStatus = JStr ''error'', currentProfile = None,
            avatars = [], isProfileReady = True, canInstall = False\<rparr>"
        "\<lparr>isLoading = False, showAvatarSelection = False\<rparr>"
        Synced "[Idle, Syncing, Synced, Idle, Syncing]" 2 "JStr ''offline''"]
  by (simp add: sync_indicator_def indicator_body_def)

text \<open>
  A run of the effect in which \<^verbatim>\<open>initializeAudio()\<close> does not throw leaves the state as
  it is while storage is not ready, and otherwise ends the loading and raises the
  avatar-selection flag when line 51 finds an avatar missing; it never lowers the flag.
\<close>

lemma initializeApp_step:
  "initializeApp h False st =
     (if \<not> storageReady h then st
      else \<lparr>isLoading = False,
            showAvatarSelection = (showAvatarSelection st \<or> needs_avatar h)\<rparr>)"
  by (simp add: initializeApp_def)

lemma initializeApp_not_ready:
  "\<not> storageReady h \<Longrightarrow> initializeApp h audio_throws st = st"
  by (simp add: initializeApp_def)

lemma initializeApp_keeps_flag:
  "showAvatarSelection st \<Longrightarrow> showAvatarSelection (initializeApp h audio_throws st)"
  by (simp add: initializeApp_def)

lemma initializeApp_runs_flag:
  "\<forall>r \<in> set rs. \<not> snd r \<Longrightarrow>
   showAvatarSelection (initializeApp_runs rs st) \<longleftrightarrow>
     showAvatarSelection st \<or> (\<exists>r \<in> set rs. storageReady (fst r) \<and> needs_avatar (fst r))"
proof (induction rs arbitrary: st)
  case Nil
  then show ?case by simp
next
  case (Cons r rs)
  obtain h a where r: "r = (h, a)" by (cases r)
  with Cons.prems have a: "\<not> a" and rest: "\<forall>r \<in> set rs. \<not> snd r" by auto
  show ?case
    using Cons.IH [OF rest, of "initializeApp h False st"] a
    by (auto simp add: r initializeApp_step)
qed

lemma initializeApp_runs_loading:
  "isLoading (initializeApp_runs rs st) \<longleftrightarrow>
     isLoading st \<and> (\<forall>r \<in> set rs. \<not> storageReady (fst r))"
proof (induction rs arbitrary: st)
  case Nil
  then show ?case by simp
next
  case (Cons r rs)
  obtain h a where r: "r = (h, a)" by (cases r)
  show ?case
    using Cons.IH [of "initializeApp h a st"]
    by (auto simp add: r initializeApp_def)
qed

lemma App_after_runs:
  assumes "\<forall>r \<in> set rs. \<not> snd r"
  shows "App h' (initializeApp_runs rs initial_state) =
     (if (\<forall>r \<in> set rs. \<not> storageReady (fst r)) \<or> \<not> storageReady h' \<or> \<not> isProfileReady h'
        then LoadingScreen
      else if \<exists>r \<in> set rs. storageReady (fst r) \<and> needs_avatar (fst r)
        then AvatarSelection (avatars h') (truthy (profile_avatar (currentProfile h')))
      else MainApp (canInstall h') (sync_indicator (syncStatus h')) (routes h'))"
proof -
  have f: "showAvatarSelection (initializeApp_runs rs initial_state) \<longleftrightarrow>
      (\<exists>r \<in> set rs. storageReady (fst r) \<and> needs_avatar (fst r))"
    using initializeApp_runs_flag [OF assms, of initial_state] by (simp add: initial_state_def)
  have l: "isLoading (initializeApp_runs rs initial_state) \<longleftrightarrow>
      (\<forall>r \<in> set rs. \<not> storageReady (fst r))"
    using initializeApp_runs_loading [of rs initial_state] by (simp add: initial_state_def)
  show ?thesis
    unfolding App_def f l by simp
qed

lemma handleAvatarSelected_dismisses:
  "App h' (snd (handleAvatarSelected a st)) \<noteq> AvatarSelection av skip"
  by (simp add: App_def handleAvatarSelected_def)

text \<open>
  When \<^verbatim>\<open>initializeAudio()\<close> throws, the \<^verbatim>\<open>catch\<close> branch ends the loading and the
  test under the comment "Check if user needs to select avatar" is never reached: the
  main application is rendered although the profile has no avatar and the list is not
  empty.
\<close>

lemma no_avatar_screen_when_audio_fails:
  "needs_avatar \<lparr>storageReady = True, syncStatus = JStr ''idle'',
           currentProfile = Some \<lparr>avatar = JNull\<rparr>, avatars = [\<lparr>avatar_id = JNum 1\<rparr>],
           isProfileReady = True, canInstall = False\<rparr>
   \<and> App \<lparr>storageReady = True, syncStatus = JStr ''idle'',
           currentProfile = Some \<lparr>avatar = JNull\<rparr>, avatars = [\<lparr>avatar_id = JNum 1\<rparr>],
           isProfileReady = True, canInstall = False\<rparr>
        (initializeApp
           \<lparr>storageReady = True, syncStatus = JStr ''idle'',
             currentProfile = Some \<lparr>avatar = JNull\<rparr>, avatars = [\<lparr>avatar_id = JNum 1\<rparr>],
             isProfileReady = True, canInstall = False\<rparr>
           True initial_state)
     = MainApp False None
         (routes \<lparr>storageReady = True, syncStatus = JStr ''idle'',
             currentProfile = Some \<lparr>avatar = JNull\<rparr>, avatars = [\<lparr>avatar_id = JNum 1\<rparr>],
             isProfileReady = True, canInstall = False\<rparr>)"
  by (simp add: App_def initializeApp_def initial_state_def profile_avatar_def
      needs_avatar_def sync_indicator_def)

text \<open>
  C10, as the claim states it, fails on the code: on a start where the avatar list
  arrives before the profile, the run that finds storage ready and no profile object
  raises the flag, and the run with the loaded profile, avatar selected, does not
  lower it. The profile has an avatar and the start screen is rendered all the same,
  with the skip option that \<^verbatim>\<open>canSkip={!!currentProfile?.avatar}\<close> provides for.
\<close>

theorem start_screen_with_skip_after_profile_loads:
  "truthy (profile_avatar (Some \<lparr>avatar = JNum 2\<rparr>))
   \<and> App \<lparr>storageReady = True, syncStatus = JStr ''idle'',
         currentProfile = Some \<lparr>avatar = JNum 2\<rparr>, avatars = [\<lparr>avatar_id = JNum 1\<rparr>],
         isProfileReady = True, canInstall = False\<rparr>
       (initializeApp
          \<lparr>storageReady = True, syncStatus = JStr ''idle'',
            currentProfile = Some \<lparr>avatar = JNum 2\<rparr>, avatars = [\<lparr>avatar_id = JNum 1\<rparr>],
            isProfileReady = True, canInstall = False\<rparr>
          False
          (initializeApp
             \<lparr>storageReady = True, syncStatus = JStr ''idle'',
               currentProfile = None, avatars = [\<lparr>avatar_id = JNum 1\<rparr>],
               isProfileReady = False, canInstall = False\<rparr>
             False initial_state))
     = AvatarSelection [\<lparr>avatar_id = JNum 1\<rparr>] True"
  by (simp add: App_def initializeApp_def initial_state_def profile_avatar_def needs_avatar_def)

text \<open>
  C10, amended. On a start of the application in which no \<^verbatim>\<open>initializeAudio()\<close>
  throws, the component renders the loading screen until a run of the initialisation
  effect has found storage ready and storage and the profile are ready; from then on
  it renders the avatar-selection screen if and only if some run that found storage
  ready found the profile without an avatar (or no profile yet) and the avatar list
  non-empty, with a skip option exactly when the profile has an avatar by now, so with
  none while it has none; otherwise the main routes render directly. Every such run
  ends the loading and raises the flag or leaves it as it is. Selecting an avatar calls
  \<^verbatim>\<open>setCurrentAvatar\<close> with the avatar's id and lowers the flag, after which the
  screen is not rendered.
\<close>

theorem avatar_selection_on_start:
  "initializeApp h False st =
     (if \<not> storageReady h then st
      else \<lparr>isLoading = False,
            showAvatarSelection = (showAvatarSelection st \<or> needs_avatar h)\<rparr>)
   \<and> ((\<forall>r \<in> set rs. \<not> snd r) \<longrightarrow>
        App h' (initializeApp_runs rs initial_state) =
          (if (\<forall>r \<in> set rs. \<not> storageReady (fst r)) \<or> \<not> storageReady h' \<or> \<not> isProfileReady h'
             then LoadingScreen
           else if \<exists>r \<in> set rs. storageReady (fst r) \<and> needs_avatar (fst r)
             then AvatarSelection (avatars h') (truthy (profile_avatar (currentProfile h')))
           else MainApp (canInstall h') (sync_indicator (syncStatus h')) (routes h')))
   \<and> needs_avatar h = (\<not> truthy (profile_avatar (currentProfile h)) \<and> avatars h \<noteq> [])
   \<and> fst (handleAvatarSelected a st) = [SetCurrentAvatar (avatar_id a)]
   \<and> snd (handleAvatarSelected a st) = st\<lparr>showAvatarSelection := False\<rparr>
   \<and> App h' (snd (handleAvatarSelected a st)) \<noteq> AvatarSelection av skip"
proof -
  note a = initializeApp_step [where h = h and st = st]
  have b: "(\<forall>r \<in> set rs. \<not> snd r) \<longrightarrow>
        App h' (initializeApp_runs rs initial_state) =
          (if (\<forall>r \<in> set rs. \<not> storageReady (fst r)) \<or> \<not> storageReady h' \<or> \<not> isProfileReady h'
             then LoadingScreen
           else if \<exists>r \<in> set rs. storageReady (fst r) \<and> needs_avatar (fst r)
             then AvatarSelection (avatars h') (truthy (profile_avatar (currentProfile h')))
           else MainApp (canInstall h') (sync_indicator (syncStatus h')) (routes h'))"
    using App_after_runs [where rs = rs and h' = h'] by blast
  have c: "needs_avatar h = (\<not> truthy (profile_avatar (currentProfile h)) \<and> avatars h \<noteq> [])"
    by (simp add: needs_avatar_def)
  have d: "fst (handleAvatarSelected a st) = [SetCurrentAvatar (avatar_id a)]"
    by (simp add: handleAvatarSelected_def)
  have e: "snd (handleAvatarSelected a st) = st\<lparr>showAvatarSelection := False\<rparr>"
    by (simp add: handleAvatarSelected_def)
  note f = handleAvatarSelected_dismisses [where h' = h' and a = a and st = st and av = av and skip = skip]
  from a b c d e f show ?thesis by blast
qed

text \<open>
  The theorem at a start of three runs: storage not ready, then storage ready with the
  list loaded and a profile without avatar, then the same again: the start screen,
  without skip. And at a start where every run finds an avatar selected: the main
  application.
\<close>

theorem avatar_selection_on_start_witness:
  "App \<lparr>storageReady = True, syncStatus = JStr ''idle'',
         currentProfile = Some \<lparr>avatar = JNull\<rparr>, avatars = [\<lparr>avatar_id = JNum 1\<rparr>],
         isProfileReady = True, canInstall = False\<rparr>
       (initializeApp_runs
          [(\<lparr>storageReady = False, syncStatus = JStr ''idle'',
              currentProfile = None, avatars = [],
              isProfileReady = False, canInstall = False\<rparr>, False),
           (\<lparr>storageReady = True, syncStatus = JStr ''idle'',
              currentProfile = Some \<lparr>avatar = JNull\<rparr>, avatars = [\<lparr>avatar_id = JNum 1\<rparr>],
              isProfileReady = True, canInstall = False\<rparr>, False)]
          initial_state)
     = AvatarSelection [\<lparr>avatar_id = JNum 1\<rparr>] False
   \<and> fst (handleAvatarSelected \<lparr>avatar_id = JNum 1\<rparr>
            \<lparr>isLoading = False, showAvatarSelection = True\<rparr>) = [SetCurrentAvatar (JNum 1)]
   \<and> snd (handleAvatarSelected \<lparr>avatar_id = JNum 1\<rparr>
            \<lparr>isLoading = False, showAvatarSelection = True\<rparr>)
     = \<lparr>isLoading = False, showAvatarSelection = False\<rparr>"
  using avatar_selection_on_start
    [of "\<lparr>storageReady = True, syncStatus = JStr ''idle'',
            currentProfile = Some \<lparr>avatar = JNull\<rparr>, avatars = [\<lparr>avatar_id = JNum 1\<rparr>],
            isProfileReady = True, canInstall = False\<rparr>"
        "\<lparr>isLoading = False, showAvatarSelection = True\<rparr>"
        "[(\<lparr>storageReady = False, syncStatus = JStr ''idle'',
              currentProfile = None, avatars = [],
              isProfileReady = False, canInstall = False\<rparr>, False),
           (\<lparr>storageReady = True, syncStatus = JStr ''idle'',
              currentProfile = Some \<lparr>avatar = JNull\<rparr>, avatars = [\<lparr>avatar_id = JNum 1\<rparr>],
              isProfileReady = True, canInstall = False\<rparr>, False)]"
        "\<lparr>storageReady = True, syncStatus = JStr ''idle'',
            currentProfile = Some \<lparr>avatar = JNull\<rparr>, avatars = [\<lparr>avatar_id = JNum 1\<rparr>],
            isProfileReady = True, canInstall = False\<rparr>"
        "\<lparr>avatar_id = JNum 1\<rparr>"]
  by (simp add: profile_avatar_def needs_avatar_def)

section \<open>Properties of the Local Profile Store\<close>

lemma submitted_for_Nil: "submitted_for l [] = []"
  by (simp add: submitted_for_def)

lemma submitted_for_Cons:
  "submitted_for l ((now, l', e) # cs) =
     (if l' = l then e # submitted_for l cs else submitted_for l cs)"
  by (simp add: submitted_for_def)

lemma upsertProgress_other:
  "l \<noteq> lvl \<Longrightarrow> progress (upsertProgress now p l e) lvl = progress p lvl"
  by (simp add: upsertProgress_def)

lemma upsertProgress_fresh:
  "progress p lvl = None \<Longrightarrow> progress (upsertProgress now p lvl e) lvl = Some e"
  by (simp add: upsertProgress_def)

lemma upsertProgress_existing:
  "progress p lvl = Some old \<Longrightarrow>
   progress (upsertProgress now p lvl e) lvl =
     Some (e\<lparr>score := max (score old) (score e), attempts := attempts old + attempts e\<rparr>)"
  by (simp add: upsertProgress_def)

lemma upsertProgress_dom:
  "dom (progress (upsertProgress now p lvl e)) = insert lvl (dom (progress p))"
  by (simp add: upsertProgress_def)

lemma upsertProgress_version:
  "version (upsertProgress now p lvl e) = version p + 1 \<and>
   last_updated (upsertProgress now p lvl e) = now"
  by (simp add: upsertProgress_def)

lemma fold_max_Max: "fold max (map f xs) (a::nat) = Max (insert a (f ` set xs))"
  using Max.set_eq_fold [of a "map f xs"] by simp

text \<open>
  With an entry already stored for the level, the calls fold their scores and attempts
  into it.
\<close>

lemma upsertProgress_calls_existing:
  "progress p lvl = Some old \<Longrightarrow>
   \<exists>e. progress (upsertProgress_calls p cs) lvl = Some e \<and>
       score e = fold max (map score (submitted_for lvl cs)) (score old) \<and>
       attempts e = attempts old + sum_list (map attempts (submitted_for lvl cs))"
proof (induction cs arbitrary: p old)
  case Nil
  then show ?case by (simp add: submitted_for_Nil)
next
  case (Cons c cs)
  obtain now l e where c: "c = (now, l, e)" by (cases c) auto
  show ?case
  proof (cases "l = lvl")
    case True
    let ?m = "e\<lparr>score := max (score old) (score e), attempts := attempts old + attempts e\<rparr>"
    have "progress (upsertProgress now p l e) lvl = Some ?m"
      using Cons.prems True by (simp add: upsertProgress_existing)
    from Cons.IH [OF this] obtain e' where
      "progress (upsertProgress_calls (upsertProgress now p l e) cs) lvl = Some e'"
      "score e' = fold max (map score (submitted_for lvl cs)) (score ?m)"
      "attempts e' = attempts ?m + sum_list (map attempts (submitted_for lvl cs))"
      by blast
    then show ?thesis
      using True by (simp add: c submitted_for_Cons max.commute)
  next
    case False
    have "progress (upsertProgress now p l e) lvl = Some old"
      using Cons.prems False by (simp add: upsertProgress_other)
    from Cons.IH [OF this] show ?thesis
      using False by (simp add: c submitted_for_Cons)
  qed
qed

lemma upsertProgress_calls_fresh:
  "progress p lvl = None \<Longrightarrow> submitted_for lvl cs \<noteq> [] \<Longrightarrow>
   \<exists>e. progress (upsertProgress_calls p cs) lvl = Some e \<and>
       score e = Max (set (map score (submitted_for lvl cs))) \<and>
       attempts e = sum_list (map attempts (submitted_for lvl cs))"
proof (induction cs arbitrary: p)
  case Nil
  then show ?case by (simp add: submitted_for_Nil)
next
  case (Cons c cs)
  obtain now l e where c: "c = (now, l, e)" by (cases c) auto
  show ?case
  proof (cases "l = lvl")
    case True
    have "progress (upsertProgress now p l e) lvl = Some e"
      using Cons.prems(1) True by (simp add: upsertProgress_fresh)
    from upsertProgress_calls_existing [OF this, of cs] obtain e' where
      "progress (upsertProgress_calls (upsertProgress now p l e) cs) lvl = Some e'"
      "score e' = fold max (map score (submitted_for lvl cs)) (score e)"
      "attempts e' = attempts e + sum_list (map attempts (submitted_for lvl cs))"
      by blast
    then show ?thesis
      using True by (simp add: c submitted_for_Cons fold_max_Max)
  next
    case False
    have n: "progress (upsertProgress now p l e) lvl = None"
      using Cons.prems(1) False by (simp add: upsertProgress_other)
    have s: "submitted_for lvl cs \<noteq> []"
      using Cons.prems(2) False by (simp add: c submitted_for_Cons)
    from Cons.IH [OF n s] show ?thesis
      using False by (simp add: c submitted_for_Cons)
  qed
qed

text \<open>
  C1. For a profile that holds no entry for a level yet, after any sequence of
  \<^verbatim>\<open>upsertProgress\<close> calls of which at least one is for that level, the stored entry's
  score is the maximum of the scores submitted for the level and its attempts are the
  sum of the attempts submitted for it. Each call inserts or replaces the entry of its
  level and leaves every other level's entry as it was.
\<close>

theorem upsertProgress_max_sum:
  assumes "progress p lvl = None" and "submitted_for lvl cs \<noteq> []"
  shows "(\<exists>e. progress (upsertProgress_calls p cs) lvl = Some e \<and>
            score e = Max (set (map score (submitted_for lvl cs))) \<and>
            attempts e = sum_list (map attempts (submitted_for lvl cs)))
         \<and> dom (progress (upsertProgress now q l entry)) = insert l (dom (progress q))
         \<and> (\<forall>l'. l' \<noteq> l \<longrightarrow> progress (upsertProgress now q l entry) l' = progress q l')"
proof -
  note a = upsertProgress_calls_fresh [OF assms]
  note b = upsertProgress_dom [where now = now and p = q and lvl = l and e = entry]
  have c: "\<forall>l'. l' \<noteq> l \<longrightarrow> progress (upsertProgress now q l entry) l' = progress q l'"
    by (simp add: upsertProgress_other)
  from a b c show ?thesis by blast
qed

theorem upsertProgress_max_sum_witness:
  "\<exists>e. progress
         (upsertProgress_calls
            \<lparr>selected_avatar = None, version = 0, last_updated = 0, progress = Map.empty\<rparr>
            [(10, 1, \<lparr>level_id = 1, score = 70, attempts = 2, completion_time = 120, last_modified = 10\<rparr>),
             (11, 2, \<lparr>level_id = 2, score = 95, attempts = 4, completion_time = 90, last_modified = 11\<rparr>),
             (12, 1, \<lparr>level_id = 1, score = 85, attempts = 1, completion_time = 100, last_modified = 12\<rparr>),
             (13, 1, \<lparr>level_id = 1, score = 60, attempts = 3, completion_time = 80, last_modified = 13\<rparr>)])
         1 = Some e
       \<and> score e = 85 \<and> attempts e = 6"
  using upsertProgress_max_sum
    [of "\<lparr>selected_avatar = None, version = 0, last_updated = 0, progress = Map.empty\<rparr>" 1
        "[(10, 1, \<lparr>level_id = 1, score = 70, attempts = 2, completion_time = 120, last_modified = 10\<rparr>),
          (11, 2, \<lparr>level_id = 2, score = 95, attempts = 4, completion_time = 90, last_modified = 11\<rparr>),
          (12, 1, \<lparr>level_id = 1, score = 85, attempts = 1, completion_time = 100, last_modified = 12\<rparr>),
          (13, 1, \<lparr>level_id = 1, score = 60, attempts = 3, completion_time = 80, last_modified = 13\<rparr>)]"]
  by (simp add: submitted_for_def)

end
